theory Spec2Isabelle
  imports Main "HOL-Library.Char_ord" "HOL-Library.List_Lexorder" "HOL-Library.Multiset"
begin

section \<open>JavaScript values and strings\<close>

text \<open>
  The client handles untyped JSON payloads and parameter objects (\<^verbatim>\<open>Record<string, any>\<close>).
  A value is one of the JavaScript kinds below. Numbers are the integer-valued ones
  (status codes, limits, millisecond durations, all below \<open>10^21\<close> in size, which
  \<^verbatim>\<open>String\<close> prints in plain decimal); an object is the list of its own
  enumerable properties in the order \<^verbatim>\<open>Object.keys\<close> / \<^verbatim>\<open>Object.entries\<close> report them,
  with pairwise distinct keys. Strings are lists of 8-bit characters, compared
  code unit by code unit.
\<close>

datatype jsval =
    JUndefined
  | JNull
  | JBool bool
  | JNum int
  | JStr string
  | JArr "jsval list"
  | JObj "(string \<times> jsval) list"

type_synonym jsobj = "(string \<times> jsval) list"

text \<open>A thrown \<^verbatim>\<open>Error\<close> (or subclass) with its \<^verbatim>\<open>message\<close>.\<close>

datatype js_error = Error (message: string)

definition digit_char :: "nat \<Rightarrow> char" where
  "digit_char d = ''0123456789'' ! d"

fun string_of_nat :: "nat \<Rightarrow> string" where
  "string_of_nat n =
     (if n < 10 then [digit_char n]
      else string_of_nat (n div 10) @ [digit_char (n mod 10)])"

declare string_of_nat.simps [simp del]

fun join :: "string \<Rightarrow> string list \<Rightarrow> string" where
  "join sep [] = []"
| "join sep [x] = x"
| "join sep (x # y # ys) = x @ sep @ join sep (y # ys)"

text \<open>\<^verbatim>\<open>String(v)\<close>, which is also what a template literal \<^verbatim>\<open>`${v}`\<close> inserts.\<close>

fun js_String :: "jsval \<Rightarrow> string" where
  "js_String JUndefined = ''undefined''"
| "js_String JNull = ''null''"
| "js_String (JBool b) = (if b then ''true'' else ''false'')"
| "js_String (JNum n) =
     (if n < 0 then ''-'' @ string_of_nat (nat (- n)) else string_of_nat (nat n))"
| "js_String (JStr s) = s"
| "js_String (JArr xs) =
     join '','' (map (\<lambda>x. if x = JUndefined \<or> x = JNull then [] else js_String x) xs)"
| "js_String (JObj ps) = ''[object Object]''"

text \<open>Truthiness, as \<^verbatim>\<open>if (v)\<close> and \<^verbatim>\<open>v || d\<close> test it.\<close>

fun truthy :: "jsval \<Rightarrow> bool" where
  "truthy JUndefined = False"
| "truthy JNull = False"
| "truthy (JBool b) = b"
| "truthy (JNum n) = (n \<noteq> 0)"
| "truthy (JStr s) = (s \<noteq> [])"
| "truthy (JArr xs) = True"
| "truthy (JObj ps) = True"

definition starts_with :: "string \<Rightarrow> string \<Rightarrow> bool" where
  "starts_with s p = (take (length p) s = p)"

text \<open>\<^verbatim>\<open>s.includes(p)\<close>: \<open>p\<close> occurs in \<open>s\<close> at some position.\<close>

fun str_includes :: "string \<Rightarrow> string \<Rightarrow> bool" where
  "str_includes [] p = (p = [])"
| "str_includes (c # cs) p = (starts_with (c # cs) p \<or> str_includes cs p)"

text \<open>
  Property read \<^verbatim>\<open>v.k\<close> for the property names the client uses (\<^verbatim>\<open>data\<close>, \<^verbatim>\<open>detail\<close>,
  \<^verbatim>\<open>status\<close>, \<^verbatim>\<open>siteCode\<close>, ...), none of which is a built-in property of a primitive or
  an array: reading from \<^verbatim>\<open>null\<close> or \<^verbatim>\<open>undefined\<close> throws a TypeError, a missing
  property reads as \<^verbatim>\<open>undefined\<close>.
\<close>

definition js_prop :: "jsobj \<Rightarrow> string \<Rightarrow> jsval" where
  "js_prop ps k = (case map_of ps k of None \<Rightarrow> JUndefined | Some v \<Rightarrow> v)"

definition type_error_read :: "string \<Rightarrow> string \<Rightarrow> js_error" where
  "type_error_read what k =
     Error (''Cannot read properties of '' @ what @ '' (reading '' @ [CHR 0x27] @ k @ [CHR 0x27] @ '')'')"

fun js_get :: "jsval \<Rightarrow> string \<Rightarrow> js_error + jsval" where
  "js_get JUndefined k = Inl (type_error_read ''undefined'' k)"
| "js_get JNull k = Inl (type_error_read ''null'' k)"
| "js_get (JObj ps) k = Inr (js_prop ps k)"
| "js_get v k = Inr JUndefined"

section \<open>Response cache (cache.ts)\<close>

record CacheEntry =
  data :: jsval
  timestamp :: int
  ttl :: int

record ApiCache =
  cache :: "string \<rightharpoonup> CacheEntry"
  defaultTtl :: int

text \<open>
  The constructor: \<^verbatim>\<open>defaultTtl?: number\<close> is \<open>None\<close> when the argument is omitted;
  \<^verbatim>\<open>if (defaultTtl)\<close> holds for a number other than 0.
\<close>

definition ApiCache_new :: "int option \<Rightarrow> ApiCache" where
  "ApiCache_new arg =
     (let c = \<lparr> cache = Map.empty, defaultTtl = 60 * 60 * 1000 \<rparr>
      in case arg of
           None \<Rightarrow> c
         | Some d \<Rightarrow> (if d \<noteq> 0 then c\<lparr> defaultTtl := d \<rparr> else c))"

text \<open>\<^verbatim>\<open>set(key, data, ttl?)\<close> at clock reading \<open>now\<close>; \<^verbatim>\<open>ttl || this.defaultTtl\<close>.\<close>

definition ApiCache_set :: "string \<Rightarrow> jsval \<Rightarrow> int option \<Rightarrow> int \<Rightarrow> ApiCache \<Rightarrow> ApiCache" where
  "ApiCache_set key d ttl_arg now c =
     (let entry = \<lparr> data = d, timestamp = now,
                     ttl = (case ttl_arg of
                              None \<Rightarrow> defaultTtl c
                            | Some t \<Rightarrow> (if t \<noteq> 0 then t else defaultTtl c)) \<rparr>
      in c\<lparr> cache := (cache c)(key \<mapsto> entry) \<rparr>)"

text \<open>\<^verbatim>\<open>get(key)\<close> at clock reading \<open>now\<close>: the value returned (\<^verbatim>\<open>null\<close> when absent or
  expired) and the cache afterwards.\<close>

definition ApiCache_get :: "string \<Rightarrow> int \<Rightarrow> ApiCache \<Rightarrow> jsval \<times> ApiCache" where
  "ApiCache_get key now c =
     (case cache c key of
        None \<Rightarrow> (JNull, c)
      | Some entry \<Rightarrow>
          if now - timestamp entry > ttl entry
          then (JNull, c\<lparr> cache := (cache c)(key := None) \<rparr>)
          else (data entry, c))"

text \<open>
  \<^verbatim>\<open>generateKey(endpoint, params?)\<close>: the keys sorted (code-unit order), each rendered as
  \<^verbatim>\<open>`${key}=${params[key]}`\<close>, joined with \<^verbatim>\<open>&\<close>.
\<close>

definition generateKey :: "string \<Rightarrow> jsobj option \<Rightarrow> string" where
  "generateKey endpoint params =
     (case params of
        None \<Rightarrow> endpoint
      | Some ps \<Rightarrow>
          if length (map fst ps) = 0 then endpoint
          else endpoint @ ''?'' @
               join ''&'' (map (\<lambda>key. key @ ''='' @ js_String (js_prop ps key)) (sort (map fst ps))))"

section \<open>The API client (client.ts): requests, environment, state\<close>

text \<open>
  An outbound call is a GET of a URL or, for the multi-site data query, a POST of a URL
  with header \<^verbatim>\<open>Content-Type: application/json\<close> whose body is \<^verbatim>\<open>JSON.stringify\<close> of the
  object carried here.
\<close>

datatype request = GET string | POST string jsobj

text \<open>
  What \<^verbatim>\<open>fetch\<close> can do: reject (network failure) with a message, or resolve to a response
  with an HTTP status and a body that \<^verbatim>\<open>response.json()\<close> either rejects, with a message, or
  parses into a value.
\<close>

datatype body = BadJson string | Json jsval

datatype fetch_outcome = NetworkError string | Response nat body

datatype event = Fetch request | Sleep int | Warn string

text \<open>
  The remote service and the wall clock are the environment: the outcome of a call and the
  reading of \<^verbatim>\<open>Date.now()\<close> may depend on how many effects the client has performed so
  far. The client's state is its cache together with the trace of its effects, oldest
  first. The ten-minute background sweep of the constructor is not part of any call
  modelled here.
\<close>

record env =
  respond :: "nat \<Rightarrow> request \<Rightarrow> fetch_outcome"
  clock :: "nat \<Rightarrow> int"

record client =
  client_cache :: ApiCache
  trace :: "event list"

definition baseUrl :: string where
  "baseUrl = ''https://data.neonscience.org''"

definition retryAttempts :: nat where
  "retryAttempts = 3"

definition retryDelay :: int where
  "retryDelay = 1000"

definition NeonApiClient_new :: client where
  "NeonApiClient_new = \<lparr> client_cache = ApiCache_new None, trace = [] \<rparr>"

definition date_now :: "env \<Rightarrow> client \<Rightarrow> int" where
  "date_now en s = clock en (length (trace s))"

definition emit :: "event \<Rightarrow> client \<Rightarrow> client" where
  "emit ev s = s\<lparr> trace := trace s @ [ev] \<rparr>"

text \<open>\<^verbatim>\<open>await fetch(...)\<close>: the call is recorded and the environment answers it.\<close>

definition fetch :: "env \<Rightarrow> request \<Rightarrow> client \<Rightarrow> fetch_outcome \<times> client" where
  "fetch en req s = (respond en (length (trace s)) req, emit (Fetch req) s)"

subsection \<open>Query strings\<close>

text \<open>
  \<^verbatim>\<open>URLSearchParams.toString()\<close>: the application/x-www-form-urlencoded serialiser, byte by
  byte (ASCII text): letters, digits and \<^verbatim>\<open>*-._\<close> stay, a space becomes \<^verbatim>\<open>+\<close>, any other
  byte becomes \<^verbatim>\<open>%HH\<close>.
\<close>

definition hex_digit :: "nat \<Rightarrow> char" where
  "hex_digit d = ''0123456789ABCDEF'' ! d"

definition urlencode_char :: "char \<Rightarrow> string" where
  "urlencode_char c =
     (let n = (of_char c :: nat)
      in if (48 \<le> n \<and> n \<le> 57) \<or> (65 \<le> n \<and> n \<le> 90) \<or> (97 \<le> n \<and> n \<le> 122)
            \<or> n = 42 \<or> n = 45 \<or> n = 46 \<or> n = 95
         then [c]
         else if n = 32 then ''+''
         else [CHR ''%'', hex_digit (n div 16), hex_digit (n mod 16)])"

definition urlencode :: "string \<Rightarrow> string" where
  "urlencode s = concat (map urlencode_char s)"

text \<open>
  The pairs \<^verbatim>\<open>searchParams.append\<close> receives (lines 51-59): \<^verbatim>\<open>undefined\<close> and \<^verbatim>\<open>null\<close> values are
  skipped, an array contributes one pair per element.
\<close>

definition search_pairs :: "jsobj \<Rightarrow> (string \<times> string) list" where
  "search_pairs ps =
     concat (map (\<lambda>(key, v).
        if v \<noteq> JUndefined \<and> v \<noteq> JNull
        then (case v of
                JArr xs \<Rightarrow> map (\<lambda>x. (key, js_String x)) xs
              | _ \<Rightarrow> [(key, js_String v)])
        else []) ps)"

definition query_string :: "jsobj \<Rightarrow> string" where
  "query_string ps =
     join ''&'' (map (\<lambda>(k, v). urlencode k @ ''='' @ urlencode v) (search_pairs ps))"

definition build_url :: "string \<Rightarrow> jsobj option \<Rightarrow> string" where
  "build_url endpoint params =
     (let url = baseUrl @ endpoint
      in case params of
           None \<Rightarrow> url
         | Some ps \<Rightarrow> if length (map fst ps) > 0 then url @ ''?'' @ query_string ps else url)"

subsection \<open>makeRequest\<close>

definition response_ok :: "nat \<Rightarrow> bool" where
  "response_ok st = (200 \<le> st \<and> st \<le> 299)"

definition read_json :: "body \<Rightarrow> js_error + jsval" where
  "read_json b = (case b of BadJson m \<Rightarrow> Inl (Error m) | Json v \<Rightarrow> Inr v)"

text \<open>
  What the code between the call and the cache write makes of an outcome (lines 67-74,
  and again lines 144-149): the error thrown, or \<^verbatim>\<open>data.data\<close>.
\<close>

definition decode_outcome :: "fetch_outcome \<Rightarrow> js_error + jsval" where
  "decode_outcome out =
     (case out of
        NetworkError m \<Rightarrow> Inl (Error m)
      | Response st b \<Rightarrow>
          if \<not> response_ok st then
            (case read_json b of
               Inl e \<Rightarrow> Inl e
             | Inr errorData \<Rightarrow>
                 (case js_get errorData ''detail'' of
                    Inl e \<Rightarrow> Inl e
                  | Inr detail \<Rightarrow>
                      (case js_get errorData ''status'' of
                         Inl e \<Rightarrow> Inl e
                       | Inr status \<Rightarrow>
                           Inl (Error (''NEON API Error: '' @ js_String detail
                                       @ '' (Status: '' @ js_String status @ '')'')))))
          else
            (case read_json b of
               Inl e \<Rightarrow> Inl e
             | Inr d \<Rightarrow> js_get d ''data''))"

text \<open>The \<^verbatim>\<open>try\<close> block of one loop iteration (lines 66-81).\<close>

definition attempt_once ::
  "env \<Rightarrow> string \<Rightarrow> string \<Rightarrow> bool \<Rightarrow> int option \<Rightarrow> client \<Rightarrow> (js_error + jsval) \<times> client" where
  "attempt_once en url cacheKey cacheEnabled cacheTtl s =
     (case fetch en (GET url) s of
        (out, s1) \<Rightarrow>
          (case decode_outcome out of
             Inl e \<Rightarrow> (Inl e, s1)
           | Inr d \<Rightarrow>
               (Inr d,
                if cacheEnabled
                then s1\<lparr> client_cache :=
                          ApiCache_set cacheKey d cacheTtl (date_now en s1) (client_cache s1) \<rparr>
                else s1)))"

text \<open>The retry loop (lines 63-97), from iteration \<open>attempt\<close> on.\<close>

function makeRequest_loop ::
  "env \<Rightarrow> string \<Rightarrow> string \<Rightarrow> bool \<Rightarrow> int option \<Rightarrow> nat \<Rightarrow> js_error option \<Rightarrow> client
     \<Rightarrow> (js_error + jsval) \<times> client" where
  "makeRequest_loop en url cacheKey cacheEnabled cacheTtl attempt lastError s =
     (if attempt < retryAttempts then
        (case attempt_once en url cacheKey cacheEnabled cacheTtl s of
           (Inr d, s1) \<Rightarrow> (Inr d, s1)
         | (Inl e, s1) \<Rightarrow>
             if str_includes (message e) ''Status: 4'' then (Inl e, s1)
             else makeRequest_loop en url cacheKey cacheEnabled cacheTtl (attempt + 1) (Some e)
                    (if attempt < retryAttempts - 1
                     then emit (Sleep (retryDelay * (int attempt + 1))) s1
                     else s1))
      else
        (Inl (case lastError of
                Some e \<Rightarrow> e
              | None \<Rightarrow> Error ''Failed to make request after retries''), s))"
  by pat_completeness auto
termination
  by (relation "measure (\<lambda>(en, url, cacheKey, cacheEnabled, cacheTtl, attempt, lastError, s).
                    retryAttempts - attempt)") auto

declare makeRequest_loop.simps [simp del]

definition makeRequest ::
  "env \<Rightarrow> string \<Rightarrow> jsobj option \<Rightarrow> bool \<Rightarrow> int option \<Rightarrow> client \<Rightarrow> (js_error + jsval) \<times> client" where
  "makeRequest en endpoint params cacheEnabled cacheTtl s =
     (let cacheKey = generateKey endpoint params;
          lookup = (if cacheEnabled
                    then (case ApiCache_get cacheKey (date_now en s) (client_cache s) of
                            (v, c) \<Rightarrow> (v, s\<lparr> client_cache := c \<rparr>))
                    else (JNull, s))
      in if cacheEnabled \<and> truthy (fst lookup) then (Inr (fst lookup), snd lookup)
         else makeRequest_loop en (build_url endpoint params) cacheKey cacheEnabled cacheTtl
                0 None (snd lookup))"

subsection \<open>queryData\<close>

text \<open>\<^verbatim>\<open>obj[k] = v\<close> and \<^verbatim>\<open>delete obj[k]\<close> on an object: an existing property keeps its
  place, a new one goes last.\<close>

fun obj_set :: "string \<Rightarrow> jsval \<Rightarrow> jsobj \<Rightarrow> jsobj" where
  "obj_set k v [] = [(k, v)]"
| "obj_set k v (p # ps) = (if fst p = k then (k, v) # ps else p # obj_set k v ps)"

definition obj_delete :: "string \<Rightarrow> jsobj \<Rightarrow> jsobj" where
  "obj_delete k ps = filter (\<lambda>p. fst p \<noteq> k) ps"

text \<open>
  \<^verbatim>\<open>DataQueryParams\<close> declares \<^verbatim>\<open>siteCodes?: string[]\<close>: the property is missing,
  \<^verbatim>\<open>undefined\<close> or an array. \<^verbatim>\<open>params.siteCodes && params.siteCodes.length > 1\<close> and
  \<^verbatim>\<open>params.siteCodes[0]\<close> are modelled for these values.
\<close>

definition many_sites :: "jsval \<Rightarrow> bool" where
  "many_sites v = (case v of JArr xs \<Rightarrow> length xs > 1 | _ \<Rightarrow> False)"

definition first_elem :: "jsval \<Rightarrow> jsval" where
  "first_elem v = (case v of JArr (x # xs) \<Rightarrow> x | _ \<Rightarrow> JUndefined)"

text \<open>The parameter object of the GET branch (lines 154-158).\<close>

definition single_site_params :: "jsobj \<Rightarrow> jsobj" where
  "single_site_params params =
     (if truthy (js_prop params ''siteCodes'')
      then obj_delete ''siteCodes''
             (obj_set ''siteCode'' (first_elem (js_prop params ''siteCodes'')) params)
      else params)"

definition queryData :: "env \<Rightarrow> jsobj \<Rightarrow> client \<Rightarrow> (js_error + jsval) \<times> client" where
  "queryData en params s =
     (let endpoint = ''/api/v0/data/query''
      in if many_sites (js_prop params ''siteCodes'') then
           (let cacheKey = generateKey endpoint (Some params)
            in case ApiCache_get cacheKey (date_now en s) (client_cache s) of
                 (cached, c) \<Rightarrow>
                   if truthy cached then (Inr cached, s\<lparr> client_cache := c \<rparr>)
                   else
                     (case fetch en (POST (baseUrl @ endpoint) params) (s\<lparr> client_cache := c \<rparr>) of
                        (out, s1) \<Rightarrow>
                          (case decode_outcome out of
                             Inl e \<Rightarrow> (Inl e, s1)
                           | Inr d \<Rightarrow>
                               (Inr d,
                                s1\<lparr> client_cache :=
                                      ApiCache_set cacheKey d None (date_now en s1)
                                        (client_cache s1) \<rparr>))))
         else makeRequest en endpoint (Some (single_site_params params)) True
                (Some (30 * 60 * 1000)) s)"

section \<open>Location resolver (client.ts, lines 163-265)\<close>

definition getSiteLocations :: "env \<Rightarrow> client \<Rightarrow> (js_error + jsval) \<times> client" where
  "getSiteLocations en s = makeRequest en ''/api/v0/locations/sites'' None True None s"

text \<open>\<^verbatim>\<open>getLocation(locationName, hierarchy?, history?, locationType?)\<close>; an omitted argument
  is \<open>None\<close>.\<close>

definition getLocation ::
  "env \<Rightarrow> string \<Rightarrow> bool option \<Rightarrow> bool option \<Rightarrow> string option \<Rightarrow> client
     \<Rightarrow> (js_error + jsval) \<times> client" where
  "getLocation en locationName hierarchy history locationType s =
     (let params =
            (if hierarchy = Some True then [(''hierarchy'', JBool True)] else [])
          @ (if history = Some True then [(''history'', JBool True)] else [])
          @ (case locationType of
               Some (c # cs) \<Rightarrow> [(''locationType'', JStr (c # cs))]
             | _ \<Rightarrow> [])
      in makeRequest en (''/api/v0/locations/'' @ locationName) (Some params) True None s)"

text \<open>
  \<^verbatim>\<open>a === b\<close> where one side is a site code or a type tag, that is a string or another
  primitive: equal values of the same kind. On two arrays or two objects \<^verbatim>\<open>===\<close> is
  reference identity, which values without identity cannot express: such operands
  compare unequal here, as two separately decoded payloads do. A catalogue entry whose
  \<^verbatim>\<open>siteCode\<close> is itself an array or an object, against \<^verbatim>\<open>Location.siteCode: string\<close>, and
  which the cross-site search compares with itself through the cached catalogue, lies
  outside this model; the statements below that depend on the comparison are about string
  site codes.
\<close>

definition strict_eq :: "jsval \<Rightarrow> jsval \<Rightarrow> bool" where
  "strict_eq a b = (case a of JArr xs \<Rightarrow> False | JObj ps \<Rightarrow> False | _ \<Rightarrow> a = b)"

text \<open>\<^verbatim>\<open>toUpperCase\<close> and \<^verbatim>\<open>toLowerCase\<close> on ASCII text.\<close>

definition to_upper_char :: "char \<Rightarrow> char" where
  "to_upper_char c =
     (let n = (of_char c :: nat) in if 97 \<le> n \<and> n \<le> 122 then char_of (n - 32) else c)"

definition to_lower_char :: "char \<Rightarrow> char" where
  "to_lower_char c =
     (let n = (of_char c :: nat) in if 65 \<le> n \<and> n \<le> 90 then char_of (n + 32) else c)"

definition toUpperCase :: "string \<Rightarrow> string" where
  "toUpperCase s = map to_upper_char s"

definition toLowerCase :: "string \<Rightarrow> string" where
  "toLowerCase s = map to_lower_char s"

text \<open>
  A method call \<^verbatim>\<open>v.m()\<close> with \<open>m\<close> a method of strings or of arrays (named \<open>expr\<close> in
  the error text): a TypeError when \<open>v\<close> is \<^verbatim>\<open>null\<close> or \<^verbatim>\<open>undefined\<close>, and when \<open>v\<close>
  has no such method.
\<close>

definition no_method :: "string \<Rightarrow> string \<Rightarrow> jsval \<Rightarrow> js_error" where
  "no_method expr m v =
     (case v of
        JUndefined \<Rightarrow> type_error_read ''undefined'' m
      | JNull \<Rightarrow> type_error_read ''null'' m
      | _ \<Rightarrow> Error (expr @ ''.'' @ m @ '' is not a function''))"

definition call_string_method ::
  "string \<Rightarrow> string \<Rightarrow> (string \<Rightarrow> string) \<Rightarrow> jsval \<Rightarrow> js_error + string" where
  "call_string_method expr m f v =
     (case v of JStr str \<Rightarrow> Inr (f str) | _ \<Rightarrow> Inl (no_method expr m v))"

text \<open>The callback of \<^verbatim>\<open>siteLocations.filter\<close> (lines 200-206), with the short-circuit
  order of \<^verbatim>\<open>&&\<close> and \<^verbatim>\<open>||\<close>.\<close>

definition is_tower_at :: "jsval \<Rightarrow> jsval \<Rightarrow> js_error + bool" where
  "is_tower_at siteCode loc =
     (case js_get loc ''siteCode'' of
        Inl e \<Rightarrow> Inl e
      | Inr sc \<Rightarrow>
          if \<not> strict_eq sc siteCode then Inr False
          else
            (case js_get loc ''locationType'' of
               Inl e \<Rightarrow> Inl e
             | Inr ty \<Rightarrow>
                 if strict_eq ty (JStr ''TOWER'') then Inr True
                 else
                   (case js_get loc ''locationName'' of
                      Inl e \<Rightarrow> Inl e
                    | Inr nm \<Rightarrow>
                        (case call_string_method ''loc.locationName'' ''toUpperCase''
                                toUpperCase nm of
                           Inl e \<Rightarrow> Inl e
                         | Inr up \<Rightarrow>
                             if str_includes up ''TOWER'' then Inr True
                             else
                               (case js_get loc ''locationDescription'' of
                                  Inl e \<Rightarrow> Inl e
                                | Inr ds \<Rightarrow>
                                    (case call_string_method ''loc.locationDescription''
                                            ''toLowerCase'' toLowerCase ds of
                                       Inl e \<Rightarrow> Inl e
                                     | Inr lo \<Rightarrow>
                                         Inr (str_includes lo ''tower''
                                              \<or> str_includes lo ''flux'')))))))"

fun filter_towers :: "jsval \<Rightarrow> jsval list \<Rightarrow> js_error + jsval list" where
  "filter_towers siteCode [] = Inr []"
| "filter_towers siteCode (loc # locs) =
     (case is_tower_at siteCode loc of
        Inl e \<Rightarrow> Inl e
      | Inr keep \<Rightarrow>
          (case filter_towers siteCode locs of
             Inl e \<Rightarrow> Inl e
           | Inr rest \<Rightarrow> Inr (if keep then loc # rest else rest)))"

text \<open>Strategy 2: \<^verbatim>\<open>siteLocations.filter(...)\<close> on whatever the catalogue request returned.\<close>

definition site_towers :: "jsval \<Rightarrow> jsval \<Rightarrow> js_error + jsval list" where
  "site_towers siteCode siteLocations =
     (case siteLocations of
        JArr locs \<Rightarrow> filter_towers siteCode locs
      | _ \<Rightarrow> Inl (no_method ''siteLocations'' ''filter'' siteLocations))"

definition possibleTowerNames :: "jsval \<Rightarrow> string list" where
  "possibleTowerNames siteCode =
     [''TOWER'' @ js_String siteCode,
      js_String siteCode @ ''_TOWER'',
      js_String siteCode @ ''.TOWER'',
      ''TOWER104454'',
      ''TOWER103029'',
      ''TOWER102755'']"

text \<open>Strategy 3, the loop of lines 221-230: each lookup sits in its own \<^verbatim>\<open>try\<close>/\<^verbatim>\<open>catch\<close>.\<close>

fun guess_loop :: "env \<Rightarrow> jsval \<Rightarrow> string list \<Rightarrow> jsval list \<Rightarrow> client \<Rightarrow> jsval list \<times> client" where
  "guess_loop en siteCode [] towers s = (towers, s)"
| "guess_loop en siteCode (towerName # names) towers s =
     (case getLocation en towerName None None None s of
        (Inl e, s1) \<Rightarrow> guess_loop en siteCode names towers s1
      | (Inr tower, s1) \<Rightarrow>
          (case js_get tower ''siteCode'' of
             Inl e \<Rightarrow> guess_loop en siteCode names towers s1
           | Inr sc \<Rightarrow>
               guess_loop en siteCode names
                 (if strict_eq sc siteCode then towers @ [tower] else towers) s1))"

text \<open>Strategy 1, lines 187-196: the tower returned early, if any.\<close>

definition direct_lookup :: "env \<Rightarrow> jsval \<Rightarrow> client \<Rightarrow> jsval option \<times> client" where
  "direct_lookup en siteCode s =
     (if siteCode = JStr ''SRER'' then
        (case getLocation en ''TOWER104454'' None None None s of
           (Inl e, s1) \<Rightarrow> (None, s1)
         | (Inr tower, s1) \<Rightarrow>
             (case js_get tower ''siteCode'' of
                Inl e \<Rightarrow> (None, s1)
              | Inr sc \<Rightarrow> (if strict_eq sc siteCode then Some tower else None, s1)))
      else (None, s))"

text \<open>Lines 198-233: the catalogue filter and, when it finds nothing, the guesses.\<close>

definition catalog_strategies :: "env \<Rightarrow> jsval \<Rightarrow> client \<Rightarrow> (js_error + jsval list) \<times> client" where
  "catalog_strategies en siteCode s =
     (case getSiteLocations en s of
        (Inl e, s1) \<Rightarrow> (Inl e, s1)
      | (Inr siteLocations, s1) \<Rightarrow>
          (case site_towers siteCode siteLocations of
             Inl e \<Rightarrow> (Inl e, s1)
           | Inr towers \<Rightarrow>
               if length towers = 0
               then (case guess_loop en siteCode (possibleTowerNames siteCode) towers s1 of
                       (found, s2) \<Rightarrow> (Inr found, s2))
               else (Inr towers, s1)))"

text \<open>
  \<^verbatim>\<open>findTowersAtSite(siteCode)\<close>. The declared parameter is a string; the cross-site search
  passes whatever \<^verbatim>\<open>site.siteCode\<close> holds, so the argument is a value here. The outer
  \<^verbatim>\<open>catch\<close> logs a warning and returns the empty array.
\<close>

definition findTowersAtSite :: "env \<Rightarrow> jsval \<Rightarrow> client \<Rightarrow> (js_error + jsval list) \<times> client" where
  "findTowersAtSite en siteCode s =
     (case (case direct_lookup en siteCode s of
              (Some tower, s1) \<Rightarrow> (Inr [tower], s1)
            | (None, s1) \<Rightarrow> catalog_strategies en siteCode s1) of
        (Inl e, s2) \<Rightarrow>
          (Inr [], emit (Warn (''Error finding towers at '' @ js_String siteCode @ '':'')) s2)
      | (Inr towers, s2) \<Rightarrow> (Inr towers, s2))"

text \<open>\<^verbatim>\<open>siteLocations.slice(0, 10)\<close>, as the \<^verbatim>\<open>for ... of\<close> loop then walks it (a string
  yields its characters).\<close>

definition first_ten :: "jsval \<Rightarrow> js_error + jsval list" where
  "first_ten siteLocations =
     (case siteLocations of
        JArr locs \<Rightarrow> Inr (take 10 locs)
      | JStr str \<Rightarrow> Inr (map (\<lambda>c. JStr [c]) (take 10 str))
      | _ \<Rightarrow> Inl (no_method ''siteLocations'' ''slice'' siteLocations))"

text \<open>The loop of lines 251-258.\<close>

fun search_loop :: "env \<Rightarrow> jsval list \<Rightarrow> jsval list \<Rightarrow> client \<Rightarrow> jsval list \<times> client" where
  "search_loop en [] matchingLocations s = (matchingLocations, s)"
| "search_loop en (site # sites) matchingLocations s =
     (case js_get site ''siteCode'' of
        Inl e \<Rightarrow> search_loop en sites matchingLocations s
      | Inr sc \<Rightarrow>
          (case findTowersAtSite en sc s of
             (Inl e, s1) \<Rightarrow> search_loop en sites matchingLocations s1
           | (Inr towers, s1) \<Rightarrow> search_loop en sites (matchingLocations @ towers) s1))"

text \<open>Lines 247-260, the search across sites, before the outer \<^verbatim>\<open>catch\<close>.\<close>

definition cross_site_search :: "env \<Rightarrow> client \<Rightarrow> (js_error + jsval list) \<times> client" where
  "cross_site_search en s =
     (case getSiteLocations en s of
        (Inl e, s1) \<Rightarrow> (Inl e, s1)
      | (Inr siteLocations, s1) \<Rightarrow>
          (case first_ten siteLocations of
             Inl e \<Rightarrow> (Inl e, s1)
           | Inr sites \<Rightarrow>
               (case search_loop en sites [] s1 of
                  (matchingLocations, s2) \<Rightarrow> (Inr matchingLocations, s2))))"

text \<open>\<^verbatim>\<open>searchLocationsByType(locationType, siteCode?)\<close>; \<^verbatim>\<open>if (siteCode)\<close> holds for a
  non-empty string.\<close>

definition searchLocationsByType ::
  "env \<Rightarrow> string \<Rightarrow> string option \<Rightarrow> client \<Rightarrow> (js_error + jsval list) \<times> client" where
  "searchLocationsByType en locationType siteCode s =
     (case siteCode of
        Some (c # cs) \<Rightarrow> findTowersAtSite en (JStr (c # cs)) s
      | _ \<Rightarrow>
          (case cross_site_search en s of
             (Inl e, s1) \<Rightarrow> (Inr [], emit (Warn ''Error searching locations by type:'') s1)
           | (Inr matchingLocations, s1) \<Rightarrow> (Inr matchingLocations, s1)))"

section \<open>Vocabulary for statements about a call\<close>

text \<open>
  A failure the \<^verbatim>\<open>catch\<close> block of the retry loop retries: any error whose message does not
  contain \<^verbatim>\<open>Status: 4\<close>.
\<close>

definition transient :: "fetch_outcome \<Rightarrow> bool" where
  "transient out =
     (case decode_outcome out of
        Inl e \<Rightarrow> \<not> str_includes (message e) ''Status: 4''
      | Inr d \<Rightarrow> False)"

text \<open>The cache lookup at the head of \<^verbatim>\<open>makeRequest\<close> answers the call (lines 40-45).\<close>

definition cache_hit :: "env \<Rightarrow> string \<Rightarrow> jsobj option \<Rightarrow> bool \<Rightarrow> client \<Rightarrow> bool" where
  "cache_hit en endpoint params cacheEnabled s =
     (cacheEnabled \<and>
      truthy (fst (ApiCache_get (generateKey endpoint params) (date_now en s) (client_cache s))))"

text \<open>The client after that lookup, which may have evicted an expired entry.\<close>

definition after_lookup :: "env \<Rightarrow> string \<Rightarrow> jsobj option \<Rightarrow> bool \<Rightarrow> client \<Rightarrow> client" where
  "after_lookup en ep ps ce s =
     (if ce then s\<lparr> client_cache :=
                      snd (ApiCache_get (generateKey ep ps) (date_now en s) (client_cache s)) \<rparr>
      else s)"

text \<open>The outbound calls in a trace, and those made between two states of the client.\<close>

fun requests_of :: "event list \<Rightarrow> request list" where
  "requests_of [] = []"
| "requests_of (Fetch r # evs) = r # requests_of evs"
| "requests_of (ev # evs) = requests_of evs"

definition issued :: "client \<Rightarrow> client \<Rightarrow> request list" where
  "issued s s' = requests_of (drop (length (trace s)) (trace s'))"

definition fetch_count :: "event list \<Rightarrow> nat" where
  "fetch_count evs = length (requests_of evs)"

text \<open>The effects of three failed attempts on one URL.\<close>

definition retry_schedule :: "string \<Rightarrow> event list" where
  "retry_schedule url =
     [Fetch (GET url), Sleep (retryDelay * 1), Fetch (GET url), Sleep (retryDelay * 2),
      Fetch (GET url)]"





section \<open>Two environments for concrete runs\<close>

text \<open>
  A service whose site catalogue lists the sites SRER and ABBY, that knows the location
  \<^verbatim>\<open>TOWER104454\<close> (a tower at SRER), and that answers every other URL with a 404 error
  document; the clock stands still.
\<close>

definition example_respond :: "nat \<Rightarrow> request \<Rightarrow> fetch_outcome" where
  "example_respond n r =
     (if r = GET ''https://data.neonscience.org/api/v0/locations/sites'' then
        Response 200 (Json (JObj [(''data'', JArr
          [JObj [(''locationName'', JStr ''SRER''), (''locationType'', JStr ''SITE''),
                 (''locationDescription'', JStr ''Santa Rita Experimental Range''),
                 (''siteCode'', JStr ''SRER'')],
           JObj [(''locationName'', JStr ''ABBY''), (''locationType'', JStr ''SITE''),
                 (''locationDescription'', JStr ''Abby Road''),
                 (''siteCode'', JStr ''ABBY'')]])]))
      else if r = GET ''https://data.neonscience.org/api/v0/locations/TOWER104454'' then
        Response 200 (Json (JObj [(''data'',
          JObj [(''locationName'', JStr ''TOWER104454''), (''locationType'', JStr ''TOWER''),
                (''locationDescription'', JStr ''Santa Rita flux tower''),
                (''siteCode'', JStr ''SRER'')])]))
      else
        Response 404 (Json (JObj [(''detail'', JStr ''Not Found''), (''status'', JNum 404)])))"

definition example_service :: env where
  "example_service = \<lparr> respond = example_respond, clock = (\<lambda>n. 0) \<rparr>"

text \<open>A service that cannot be reached: every call is rejected.\<close>

definition unreachable_service :: env where
  "unreachable_service =
     \<lparr> respond = (\<lambda>n r. NetworkError ''connect ECONNREFUSED''), clock = (\<lambda>n. 0) \<rparr>"

section \<open>Properties of the response cache\<close>

text \<open>
  C5. For a key that holds an entry, \<^verbatim>\<open>get\<close> at a time later than \<open>storedAt + ttl\<close>
  returns \<^verbatim>\<open>null\<close> (absent) and the entry is gone from the store afterwards, every other
  entry being untouched; \<^verbatim>\<open>get\<close> at a time no later than \<open>storedAt + ttl\<close> returns the
  stored value and leaves the cache as it was.
\<close>

theorem get_expire_on_read:
  assumes "cache c key = Some e"
  shows "(timestamp e + ttl e < now \<longrightarrow>
            fst (ApiCache_get key now c) = JNull \<and>
            cache (snd (ApiCache_get key now c)) key = None \<and>
            snd (ApiCache_get key now c) = c\<lparr> cache := (cache c)(key := None) \<rparr>)
       \<and> (now \<le> timestamp e + ttl e \<longrightarrow> ApiCache_get key now c = (data e, c))"
  using assms by (auto simp: ApiCache_get_def)

theorem get_expire_on_read_witness:
  "cache \<lparr> cache = [''k'' \<mapsto> \<lparr> data = JNum 7, timestamp = 1000, ttl = 500 \<rparr>],
           defaultTtl = 3600000 \<rparr> ''k''
     = Some \<lparr> data = JNum 7, timestamp = 1000, ttl = 500 \<rparr>
   \<and> fst (ApiCache_get ''k'' 1501
           \<lparr> cache = [''k'' \<mapsto> \<lparr> data = JNum 7, timestamp = 1000, ttl = 500 \<rparr>],
             defaultTtl = 3600000 \<rparr>) = JNull
   \<and> cache (snd (ApiCache_get ''k'' 1501
           \<lparr> cache = [''k'' \<mapsto> \<lparr> data = JNum 7, timestamp = 1000, ttl = 500 \<rparr>],
             defaultTtl = 3600000 \<rparr>)) ''k'' = None
   \<and> ApiCache_get ''k'' 1500
           \<lparr> cache = [''k'' \<mapsto> \<lparr> data = JNum 7, timestamp = 1000, ttl = 500 \<rparr>],
             defaultTtl = 3600000 \<rparr>
     = (JNum 7, \<lparr> cache = [''k'' \<mapsto> \<lparr> data = JNum 7, timestamp = 1000, ttl = 500 \<rparr>],
                  defaultTtl = 3600000 \<rparr>)"
proof -
  let ?e = "\<lparr> data = JNum 7, timestamp = 1000, ttl = 500 \<rparr>"
  let ?c = "\<lparr> cache = [''k'' \<mapsto> ?e], defaultTtl = 3600000 \<rparr>"
  have h: "cache ?c ''k'' = Some ?e" by simp
  show ?thesis
    using h get_expire_on_read [OF h, of 1501] get_expire_on_read [OF h, of 1500]
    by simp
qed

text \<open>
  C6. The cache key depends on the operation and on the set of parameter key/value pairs
  only: two parameter objects that list the same pairs in different orders get the same
  key.
\<close>

theorem generateKey_permutation:
  assumes d: "distinct (map fst P1)" and m: "mset P1 = mset P2"
  shows "generateKey ep (Some P1) = generateKey ep (Some P2)"
proof -
  have mk: "mset (map fst P1) = mset (map fst P2)"
    using m by (metis mset_map)
  have d2: "distinct (map fst P2)"
    using d mk by (metis mset_eq_imp_distinct_iff)
  have s: "set P1 = set P2"
    using m by (metis set_mset_mset)
  have "map_of P1 = map_of P2"
    using d d2 s by (simp add: map_of_inject_set)
  then have pr: "js_prop P1 = js_prop P2"
    by (simp add: js_prop_def fun_eq_iff)
  have so: "sort (map fst P1) = sort (map fst P2)"
    using mk by (intro properties_for_sort) simp_all
  have le: "length P1 = length P2"
    using m by (metis mset_eq_length)
  show ?thesis
    by (simp add: generateKey_def so le pr)
qed

theorem generateKey_permutation_witness:
  "distinct (map fst [(''limit'', JNum 5), (''family'', JStr ''Pinaceae'')])
   \<and> mset [(''limit'', JNum 5), (''family'', JStr ''Pinaceae'')]
     = mset [(''family'', JStr ''Pinaceae''), (''limit'', JNum 5)]
   \<and> generateKey ''/api/v0/taxonomy'' (Some [(''limit'', JNum 5), (''family'', JStr ''Pinaceae'')])
     = generateKey ''/api/v0/taxonomy'' (Some [(''family'', JStr ''Pinaceae''), (''limit'', JNum 5)])"
proof -
  have d: "distinct (map fst [(''limit'', JNum 5), (''family'', JStr ''Pinaceae'')])"
    by simp
  have m: "mset [(''limit'', JNum 5), (''family'', JStr ''Pinaceae'')]
         = mset [(''family'', JStr ''Pinaceae''), (''limit'', JNum 5)]"
    by simp
  show ?thesis
    using d m generateKey_permutation [OF d m, of "''/api/v0/taxonomy''"] by blast
qed

text \<open>
  C10. A time-to-live of 0 cannot be requested: \<^verbatim>\<open>set(key, value, 0)\<close> stores the entry with
  the cache's default time-to-live, and \<^verbatim>\<open>new ApiCache(0)\<close> is the cache \<^verbatim>\<open>new ApiCache()\<close>
  builds, whose default is one hour (3600000 ms); so on that cache the entry is stored
  with one hour.
\<close>

theorem zero_ttl_is_default:
  "cache (ApiCache_set key v (Some 0) now c) key
     = Some \<lparr> data = v, timestamp = now, ttl = defaultTtl c \<rparr>
   \<and> ApiCache_new (Some 0) = ApiCache_new None
   \<and> defaultTtl (ApiCache_new (Some 0)) = 60 * 60 * 1000
   \<and> cache (ApiCache_set key v (Some 0) now (ApiCache_new (Some 0))) key
     = Some \<lparr> data = v, timestamp = now, ttl = 3600000 \<rparr>"
  by (simp add: ApiCache_set_def ApiCache_new_def)

section \<open>Properties of the request executor\<close>

lemma loop_done:
  "makeRequest_loop en url k ce t (Suc (Suc (Suc 0))) (Some e) s = (Inl e, s)"
  by (subst makeRequest_loop.simps) (simp add: retryAttempts_def)

lemma loop_2:
  "makeRequest_loop en url k ce t (Suc (Suc 0)) le s =
     (case attempt_once en url k ce t s of
        (Inr d, s3) \<Rightarrow> (Inr d, s3)
      | (Inl e3, s3) \<Rightarrow> (Inl e3, s3))"
  by (subst makeRequest_loop.simps)
     (simp add: retryAttempts_def loop_done split: prod.splits sum.splits)

lemma loop_1:
  "makeRequest_loop en url k ce t (Suc 0) le s =
     (case attempt_once en url k ce t s of
        (Inr d, s2) \<Rightarrow> (Inr d, s2)
      | (Inl e2, s2) \<Rightarrow>
          if str_includes (message e2) ''Status: 4'' then (Inl e2, s2)
          else makeRequest_loop en url k ce t (Suc (Suc 0)) (Some e2) (emit (Sleep (retryDelay * 2)) s2))"
  by (subst makeRequest_loop.simps)
     (simp add: retryAttempts_def split: prod.splits sum.splits)

lemma loop_0:
  "makeRequest_loop en url k ce t 0 le s =
     (case attempt_once en url k ce t s of
        (Inr d, s1) \<Rightarrow> (Inr d, s1)
      | (Inl e1, s1) \<Rightarrow>
          if str_includes (message e1) ''Status: 4'' then (Inl e1, s1)
          else makeRequest_loop en url k ce t (Suc 0) (Some e1) (emit (Sleep (retryDelay * 1)) s1))"
  by (subst makeRequest_loop.simps)
     (simp add: retryAttempts_def split: prod.splits sum.splits)

lemma attempt_once_trace:
  "trace (snd (attempt_once en url k ce t s)) = trace s @ [Fetch (GET url)]"
  by (simp add: attempt_once_def fetch_def emit_def split: sum.splits prod.splits)

lemma loop_trace:
  "\<exists>n\<in>{1, 2, 3::nat}. trace (snd (makeRequest_loop en url k ce t 0 le s))
      = trace s @ take (2 * n - 1) (retry_schedule url)"
proof -
  obtain r1 s1 where a1: "attempt_once en url k ce t s = (r1, s1)" by force
  have t1: "trace s1 = trace s @ [Fetch (GET url)]"
    using attempt_once_trace [of en url k ce t s] a1 by simp
  obtain r2 s2 where a2: "attempt_once en url k ce t (emit (Sleep retryDelay) s1) = (r2, s2)" by force
  have t2: "trace s2 = trace s @ [Fetch (GET url), Sleep (retryDelay * 1), Fetch (GET url)]"
    using attempt_once_trace [of en url k ce t "emit (Sleep retryDelay) s1"] a2 t1
    by (simp add: emit_def)
  obtain r3 s3 where a3: "attempt_once en url k ce t (emit (Sleep (retryDelay * 2)) s2) = (r3, s3)" by force
  have t3: "trace s3 = trace s @ retry_schedule url"
    using attempt_once_trace [of en url k ce t "emit (Sleep (retryDelay * 2)) s2"] a3 t2
    by (simp add: emit_def retry_schedule_def)
  have "trace (snd (makeRequest_loop en url k ce t 0 le s)) \<in> {trace s1, trace s2, trace s3}"
    by (simp add: loop_0 loop_1 loop_2 a1 a2 a3 split: sum.splits)
  then show ?thesis
    using t1 t2 t3 by (auto simp: retry_schedule_def)
qed


lemma makeRequest_hit:
  "cache_hit en ep ps ce s \<Longrightarrow> trace (snd (makeRequest en ep ps ce t s)) = trace s"
  by (auto simp: makeRequest_def cache_hit_def Let_def split: prod.splits)

lemma trace_after_lookup [simp]: "trace (after_lookup en ep ps ce s) = trace s"
  by (simp add: after_lookup_def)

lemma makeRequest_miss:
  "\<not> cache_hit en ep ps ce s \<Longrightarrow>
     makeRequest en ep ps ce t s
       = makeRequest_loop en (build_url ep ps) (generateKey ep ps) ce t 0 None
           (after_lookup en ep ps ce s)"
  by (auto simp: makeRequest_def cache_hit_def after_lookup_def Let_def split: prod.splits)

lemma makeRequest_trace:
  "\<exists>n\<in>{0, 1, 2, 3::nat}. trace (snd (makeRequest en ep ps ce t s))
      = trace s @ take (2 * n - 1) (retry_schedule (build_url ep ps))"
proof (cases "cache_hit en ep ps ce s")
  case True
  then show ?thesis using makeRequest_hit [OF True, of t] by simp
next
  case False
  show ?thesis
    using loop_trace [of en "build_url ep ps" "generateKey ep ps" ce t None "after_lookup en ep ps ce s"]
    by (auto simp: makeRequest_miss [OF False])
qed

lemma attempt_once_fail:
  "decode_outcome (respond en (length (trace s)) (GET url)) = Inl e \<Longrightarrow>
   attempt_once en url k ce t s = (Inl e, emit (Fetch (GET url)) s)"
  by (simp add: attempt_once_def fetch_def)

lemma exhausted:
  assumes miss: "\<not> cache_hit en ep ps ce s"
    and t1: "transient (respond en (length (trace s)) (GET (build_url ep ps)))"
    and t2: "transient (respond en (length (trace s) + 2) (GET (build_url ep ps)))"
    and t3: "transient (respond en (length (trace s) + 4) (GET (build_url ep ps)))"
  shows "fst (makeRequest en ep ps ce t s)
           = decode_outcome (respond en (length (trace s) + 4) (GET (build_url ep ps)))
       \<and> trace (snd (makeRequest en ep ps ce t s)) = trace s @ retry_schedule (build_url ep ps)"
proof -
  let ?url = "build_url ep ps" and ?k = "generateKey ep ps"
  let ?s0 = "after_lookup en ep ps ce s"
  let ?s1 = "emit (Sleep retryDelay) (emit (Fetch (GET ?url)) ?s0)"
  let ?s2 = "emit (Sleep (retryDelay * 2)) (emit (Fetch (GET ?url)) ?s1)"
  obtain e1 where e1: "decode_outcome (respond en (length (trace s)) (GET ?url)) = Inl e1"
    "\<not> str_includes (message e1) ''Status: 4''"
    using t1 by (auto simp: transient_def split: sum.splits)
  obtain e2 where e2: "decode_outcome (respond en (length (trace s) + 2) (GET ?url)) = Inl e2"
    "\<not> str_includes (message e2) ''Status: 4''"
    using t2 by (auto simp: transient_def split: sum.splits)
  obtain e3 where e3: "decode_outcome (respond en (length (trace s) + 4) (GET ?url)) = Inl e3"
    using t3 by (auto simp: transient_def split: sum.splits)
  have l1: "length (trace ?s1) = length (trace s) + 2" by (simp add: emit_def)
  have l2: "length (trace ?s2) = length (trace s) + 4" by (simp add: emit_def)
  have a1: "attempt_once en ?url ?k ce t ?s0 = (Inl e1, emit (Fetch (GET ?url)) ?s0)"
    by (rule attempt_once_fail) (simp add: e1)
  have a2: "attempt_once en ?url ?k ce t ?s1 = (Inl e2, emit (Fetch (GET ?url)) ?s1)"
    by (rule attempt_once_fail) (simp only: l1 e2)
  have a3: "attempt_once en ?url ?k ce t ?s2 = (Inl e3, emit (Fetch (GET ?url)) ?s2)"
    by (rule attempt_once_fail) (simp only: l2 e3)
  have "makeRequest en ep ps ce t s = (Inl e3, emit (Fetch (GET ?url)) ?s2)"
    by (simp add: makeRequest_miss [OF miss] loop_0 loop_1 loop_2 a1 a2 a3 e1 e2)
  then show ?thesis
    by (simp add: e3 emit_def retry_schedule_def)
qed


lemma requests_of_append: "requests_of (xs @ ys) = requests_of xs @ requests_of ys"
  by (induction xs rule: requests_of.induct) simp_all

lemma fetch_count_append: "fetch_count (xs @ ys) = fetch_count xs + fetch_count ys"
  by (simp add: fetch_count_def requests_of_append)

text \<open>
  C3. \<^verbatim>\<open>makeRequest\<close> makes at most three outbound attempts, and what it does is always an
  initial part of: attempt, wait \<open>retryDelay * 1\<close>, attempt, wait \<open>retryDelay * 2\<close>, attempt;
  the two waits are strictly increasing. When the cache does not answer and the three
  attempts all fail with a failure the loop retries, the call fails with the error of the
  last attempt, after exactly those five effects.
\<close>

theorem makeRequest_bounded_linear_backoff:
  "(\<exists>n\<in>{0, 1, 2, 3::nat}.
      trace (snd (makeRequest en ep ps ce t s))
        = trace s @ take (2 * n - 1)
            [Fetch (GET (build_url ep ps)), Sleep (retryDelay * 1),
             Fetch (GET (build_url ep ps)), Sleep (retryDelay * 2),
             Fetch (GET (build_url ep ps))]
      \<and> fetch_count (trace (snd (makeRequest en ep ps ce t s))) = fetch_count (trace s) + n)
   \<and> retryDelay * 1 < retryDelay * 2
   \<and> (\<not> cache_hit en ep ps ce s
        \<and> transient (respond en (length (trace s)) (GET (build_url ep ps)))
        \<and> transient (respond en (length (trace s) + 2) (GET (build_url ep ps)))
        \<and> transient (respond en (length (trace s) + 4) (GET (build_url ep ps)))
      \<longrightarrow> fst (makeRequest en ep ps ce t s)
            = decode_outcome (respond en (length (trace s) + 4) (GET (build_url ep ps)))
        \<and> (\<exists>e. fst (makeRequest en ep ps ce t s) = Inl e)
        \<and> trace (snd (makeRequest en ep ps ce t s))
            = trace s @ [Fetch (GET (build_url ep ps)), Sleep (retryDelay * 1),
                         Fetch (GET (build_url ep ps)), Sleep (retryDelay * 2),
                         Fetch (GET (build_url ep ps))])"
proof (intro conjI impI)
  obtain n where n: "n \<in> {0, 1, 2, 3::nat}"
    "trace (snd (makeRequest en ep ps ce t s))
       = trace s @ take (2 * n - 1) (retry_schedule (build_url ep ps))"
    using makeRequest_trace [of en ep ps ce t s] by blast
  have "fetch_count (take (2 * n - 1) (retry_schedule (build_url ep ps))) = n"
    using n(1) by (auto simp: fetch_count_def retry_schedule_def)
  then show "\<exists>n\<in>{0, 1, 2, 3::nat}.
      trace (snd (makeRequest en ep ps ce t s))
        = trace s @ take (2 * n - 1)
            [Fetch (GET (build_url ep ps)), Sleep (retryDelay * 1),
             Fetch (GET (build_url ep ps)), Sleep (retryDelay * 2),
             Fetch (GET (build_url ep ps))]
      \<and> fetch_count (trace (snd (makeRequest en ep ps ce t s))) = fetch_count (trace s) + n"
    using n by (intro bexI [of _ n]) (simp_all add: fetch_count_append retry_schedule_def)
next
  show "retryDelay * 1 < retryDelay * 2" by (simp add: retryDelay_def)
next
  assume h: "\<not> cache_hit en ep ps ce s
        \<and> transient (respond en (length (trace s)) (GET (build_url ep ps)))
        \<and> transient (respond en (length (trace s) + 2) (GET (build_url ep ps)))
        \<and> transient (respond en (length (trace s) + 4) (GET (build_url ep ps)))"
  then have ex: "fst (makeRequest en ep ps ce t s)
           = decode_outcome (respond en (length (trace s) + 4) (GET (build_url ep ps)))
       \<and> trace (snd (makeRequest en ep ps ce t s)) = trace s @ retry_schedule (build_url ep ps)"
    by (intro exhausted) simp_all
  from ex show "fst (makeRequest en ep ps ce t s)
            = decode_outcome (respond en (length (trace s) + 4) (GET (build_url ep ps)))"
    by simp
  from ex h show "\<exists>e. fst (makeRequest en ep ps ce t s) = Inl e"
    by (auto simp: transient_def split: sum.splits)
  from ex show "trace (snd (makeRequest en ep ps ce t s))
            = trace s @ [Fetch (GET (build_url ep ps)), Sleep (retryDelay * 1),
                         Fetch (GET (build_url ep ps)), Sleep (retryDelay * 2),
                         Fetch (GET (build_url ep ps))]"
    by (simp add: retry_schedule_def)
qed

theorem makeRequest_bounded_linear_backoff_witness:
  "\<not> cache_hit \<lparr> respond = (\<lambda>n r. Response 503 (Json (JObj
          [(''detail'', JStr ''Service Unavailable''), (''status'', JNum 503)]))),
        clock = (\<lambda>n. 0) \<rparr> ''/api/v0/sites'' None True NeonApiClient_new
   \<and> transient (Response 503 (Json (JObj
          [(''detail'', JStr ''Service Unavailable''), (''status'', JNum 503)])))
   \<and> fst (makeRequest \<lparr> respond = (\<lambda>n r. Response 503 (Json (JObj
          [(''detail'', JStr ''Service Unavailable''), (''status'', JNum 503)]))),
        clock = (\<lambda>n. 0) \<rparr> ''/api/v0/sites'' None True None NeonApiClient_new)
     = Inl (Error ''NEON API Error: Service Unavailable (Status: 503)'')
   \<and> trace (snd (makeRequest \<lparr> respond = (\<lambda>n r. Response 503 (Json (JObj
          [(''detail'', JStr ''Service Unavailable''), (''status'', JNum 503)]))),
        clock = (\<lambda>n. 0) \<rparr> ''/api/v0/sites'' None True None NeonApiClient_new))
     = [Fetch (GET ''https://data.neonscience.org/api/v0/sites''), Sleep 1000,
        Fetch (GET ''https://data.neonscience.org/api/v0/sites''), Sleep 2000,
        Fetch (GET ''https://data.neonscience.org/api/v0/sites'')]"
proof -
  let ?out = "Response 503 (Json (JObj
          [(''detail'', JStr ''Service Unavailable''), (''status'', JNum 503)]))"
  let ?en = "\<lparr> respond = (\<lambda>n r. ?out), clock = (\<lambda>n. 0) \<rparr>"
  let ?r = "makeRequest ?en ''/api/v0/sites'' None True None NeonApiClient_new"
  have miss: "\<not> cache_hit ?en ''/api/v0/sites'' None True NeonApiClient_new"
    by code_simp
  have tr: "transient ?out"
    by code_simp
  have d: "decode_outcome ?out = Inl (Error ''NEON API Error: Service Unavailable (Status: 503)'')"
    by code_simp
  have u: "build_url ''/api/v0/sites'' None = ''https://data.neonscience.org/api/v0/sites''"
    by code_simp
  have "fst ?r = decode_outcome ?out \<and>
        trace (snd ?r) = trace NeonApiClient_new @
           [Fetch (GET (build_url ''/api/v0/sites'' None)), Sleep (retryDelay * 1),
            Fetch (GET (build_url ''/api/v0/sites'' None)), Sleep (retryDelay * 2),
            Fetch (GET (build_url ''/api/v0/sites'' None))]"
    using makeRequest_bounded_linear_backoff [of ?en "''/api/v0/sites''" None True None NeonApiClient_new]
      miss tr by simp
  then have "fst ?r = Inl (Error ''NEON API Error: Service Unavailable (Status: 503)'')"
    and "trace (snd ?r) = [Fetch (GET ''https://data.neonscience.org/api/v0/sites''), Sleep 1000,
                   Fetch (GET ''https://data.neonscience.org/api/v0/sites''), Sleep 2000,
                   Fetch (GET ''https://data.neonscience.org/api/v0/sites'')]"
    by (simp_all add: d u retryDelay_def NeonApiClient_new_def)
  with miss tr show ?thesis by blast
qed

text \<open>
  C1. The claim: a response with a 4xx HTTP status makes \<^verbatim>\<open>makeRequest\<close> fail after one
  attempt, and the choice between failing and retrying follows the HTTP status, never the
  body. The code decides by searching the error message, built from the body's \<^verbatim>\<open>detail\<close>
  and \<^verbatim>\<open>status\<close>, for \<^verbatim>\<open>Status: 4\<close>. Evaluated here: an HTTP 404 whose body is not JSON is
  attempted three times; an HTTP 404 whose body reports status 404 is attempted once; an
  HTTP 503 whose \<^verbatim>\<open>detail\<close> text contains \<^verbatim>\<open>Status: 404\<close> is attempted once.
\<close>

theorem makeRequest_404_retried:
  "trace (snd (makeRequest
       \<lparr> respond = (\<lambda>n r. Response 404 (BadJson ''Unexpected token < in JSON at position 0'')),
         clock = (\<lambda>n. 0) \<rparr>
       ''/api/v0/sites/XXXX'' None True None NeonApiClient_new))
     = [Fetch (GET ''https://data.neonscience.org/api/v0/sites/XXXX''), Sleep 1000,
        Fetch (GET ''https://data.neonscience.org/api/v0/sites/XXXX''), Sleep 2000,
        Fetch (GET ''https://data.neonscience.org/api/v0/sites/XXXX'')]
   \<and> trace (snd (makeRequest
       \<lparr> respond = (\<lambda>n r. Response 404 (Json (JObj
            [(''detail'', JStr ''Not Found''), (''status'', JNum 404)]))),
         clock = (\<lambda>n. 0) \<rparr>
       ''/api/v0/sites/XXXX'' None True None NeonApiClient_new))
     = [Fetch (GET ''https://data.neonscience.org/api/v0/sites/XXXX'')]
   \<and> trace (snd (makeRequest
       \<lparr> respond = (\<lambda>n r. Response 503 (Json (JObj
            [(''detail'', JStr ''upstream answered Status: 404''), (''status'', JNum 503)]))),
         clock = (\<lambda>n. 0) \<rparr>
       ''/api/v0/sites/XXXX'' None True None NeonApiClient_new))
     = [Fetch (GET ''https://data.neonscience.org/api/v0/sites/XXXX'')]"
  by code_simp

section \<open>Properties of the query planner\<close>

lemma loop_issued:
  "\<exists>n\<in>{1, 2, 3::nat}. issued s (snd (makeRequest_loop en url k ce t 0 le s0)) = replicate n (GET url)"
  if "trace s0 = trace s"
proof -
  obtain n where n: "n \<in> {1, 2, 3::nat}"
    "trace (snd (makeRequest_loop en url k ce t 0 le s0)) = trace s0 @ take (2 * n - 1) (retry_schedule url)"
    using loop_trace [of en url k ce t le s0] by blast
  have "requests_of (take (2 * n - 1) (retry_schedule url)) = replicate n (GET url)"
    using n(1) by (auto simp: retry_schedule_def numeral_3_eq_3 numeral_2_eq_2)
  then show ?thesis using n that by (intro bexI [of _ n]) (simp_all add: issued_def)
qed

lemma makeRequest_issued:
  "\<exists>n\<le>3. issued s (snd (makeRequest en ep ps ce t s)) = replicate n (GET (build_url ep ps))
         \<and> (n = 0 \<longleftrightarrow> cache_hit en ep ps ce s)"
proof (cases "cache_hit en ep ps ce s")
  case True
  then show ?thesis
    using makeRequest_hit [OF True, of t] by (intro exI [of _ 0]) (simp add: issued_def)
next
  case False
  have eq: "makeRequest en ep ps ce t s
      = makeRequest_loop en (build_url ep ps) (generateKey ep ps) ce t 0 None
          (after_lookup en ep ps ce s)"
    by (rule makeRequest_miss [OF False])
  have "\<exists>n\<in>{1, 2, 3::nat}.
          issued s (snd (makeRequest en ep ps ce t s)) = replicate n (GET (build_url ep ps))"
    unfolding eq by (rule loop_issued) simp
  then obtain n where "n \<in> {1, 2, 3::nat}"
    "issued s (snd (makeRequest en ep ps ce t s)) = replicate n (GET (build_url ep ps))"
    by blast
  then show ?thesis using False by (intro exI [of _ n]) auto
qed

lemma queryData_post:
  assumes "many_sites (js_prop params ''siteCodes'')"
  shows "issued s (snd (queryData en params s))
         = (if cache_hit en ''/api/v0/data/query'' (Some params) True s then []
            else [POST (baseUrl @ ''/api/v0/data/query'') params])"
  using assms
  by (auto simp: queryData_def cache_hit_def issued_def fetch_def emit_def Let_def
           split: prod.splits sum.splits)

text \<open>
  C2. A data-availability query whose \<^verbatim>\<open>siteCodes\<close> holds more than one site sends, unless
  the cache answers it, exactly one request: a POST of the endpoint with the parameter
  object as JSON body. A query whose \<^verbatim>\<open>siteCodes\<close> holds one or no site, or has no
  \<^verbatim>\<open>siteCodes\<close>, sends only GET requests (at most three attempts, none exactly when the
  cache answers), each to the endpoint followed by the query string of the flattened
  parameters.
\<close>

theorem queryData_transport:
  "(js_prop params ''siteCodes'' = JArr sites \<and> 1 < length sites \<longrightarrow>
      issued s (snd (queryData en params s))
        = (if cache_hit en ''/api/v0/data/query'' (Some params) True s then []
           else [POST (baseUrl @ ''/api/v0/data/query'') params]))
   \<and> ((js_prop params ''siteCodes'' = JArr sites \<and> length sites \<le> 1)
        \<or> js_prop params ''siteCodes'' = JUndefined \<longrightarrow>
      (\<exists>n\<le>3. issued s (snd (queryData en params s))
                 = replicate n (GET (build_url ''/api/v0/data/query''
                                       (Some (single_site_params params))))
             \<and> (n = 0 \<longleftrightarrow>
                  cache_hit en ''/api/v0/data/query'' (Some (single_site_params params)) True s)))"
proof (intro conjI impI)
  assume "js_prop params ''siteCodes'' = JArr sites \<and> 1 < length sites"
  then have "many_sites (js_prop params ''siteCodes'')"
    by (simp add: many_sites_def)
  then show "issued s (snd (queryData en params s))
        = (if cache_hit en ''/api/v0/data/query'' (Some params) True s then []
           else [POST (baseUrl @ ''/api/v0/data/query'') params])"
    by (rule queryData_post)
next
  assume "(js_prop params ''siteCodes'' = JArr sites \<and> length sites \<le> 1)
        \<or> js_prop params ''siteCodes'' = JUndefined"
  then have "\<not> many_sites (js_prop params ''siteCodes'')"
    by (auto simp: many_sites_def)
  then have "queryData en params s
      = makeRequest en ''/api/v0/data/query'' (Some (single_site_params params)) True
          (Some (30 * 60 * 1000)) s"
    by (simp add: queryData_def)
  then show "\<exists>n\<le>3. issued s (snd (queryData en params s))
                 = replicate n (GET (build_url ''/api/v0/data/query''
                                       (Some (single_site_params params))))
             \<and> (n = 0 \<longleftrightarrow>
                  cache_hit en ''/api/v0/data/query'' (Some (single_site_params params)) True s)"
    using makeRequest_issued [of s en "''/api/v0/data/query''" "Some (single_site_params params)" True
        "Some (30 * 60 * 1000)"]
    by simp
qed


theorem queryData_transport_witness:
  "js_prop [(''productCode'', JStr ''DP1.10003.001''), (''startDateMonth'', JStr ''2023-01''),
            (''endDateMonth'', JStr ''2023-06''),
            (''siteCodes'', JArr [JStr ''HARV'', JStr ''SRER''])] ''siteCodes''
     = JArr [JStr ''HARV'', JStr ''SRER'']
   \<and> 1 < length [JStr ''HARV'', JStr ''SRER'']
   \<and> issued NeonApiClient_new (snd (queryData
         \<lparr> respond = (\<lambda>n r. Response 200 (Json (JObj [(''data'', JObj [(''siteCodes'', JArr [])])]))),
           clock = (\<lambda>n. 0) \<rparr>
         [(''productCode'', JStr ''DP1.10003.001''), (''startDateMonth'', JStr ''2023-01''),
          (''endDateMonth'', JStr ''2023-06''),
          (''siteCodes'', JArr [JStr ''HARV'', JStr ''SRER''])]
         NeonApiClient_new))
     = [POST ''https://data.neonscience.org/api/v0/data/query''
          [(''productCode'', JStr ''DP1.10003.001''), (''startDateMonth'', JStr ''2023-01''),
           (''endDateMonth'', JStr ''2023-06''),
           (''siteCodes'', JArr [JStr ''HARV'', JStr ''SRER''])]]
   \<and> js_prop [(''productCode'', JStr ''DP1.10003.001''), (''startDateMonth'', JStr ''2023-01''),
            (''endDateMonth'', JStr ''2023-06''), (''siteCodes'', JArr [JStr ''HARV''])] ''siteCodes''
     = JArr [JStr ''HARV'']
   \<and> length [JStr ''HARV''] \<le> 1
   \<and> (\<exists>n\<le>3. n \<noteq> 0 \<and> issued NeonApiClient_new (snd (queryData
         \<lparr> respond = (\<lambda>n r. Response 200 (Json (JObj [(''data'', JObj [(''siteCodes'', JArr [])])]))),
           clock = (\<lambda>n. 0) \<rparr>
         [(''productCode'', JStr ''DP1.10003.001''), (''startDateMonth'', JStr ''2023-01''),
          (''endDateMonth'', JStr ''2023-06''), (''siteCodes'', JArr [JStr ''HARV''])]
         NeonApiClient_new))
     = replicate n (GET ''https://data.neonscience.org/api/v0/data/query?productCode=DP1.10003.001&startDateMonth=2023-01&endDateMonth=2023-06&siteCode=HARV''))"
proof -
  let ?en = "\<lparr> respond = (\<lambda>n r. Response 200 (Json (JObj [(''data'', JObj [(''siteCodes'', JArr [])])]))),
           clock = (\<lambda>n. 0) \<rparr>"
  let ?P2 = "[(''productCode'', JStr ''DP1.10003.001''), (''startDateMonth'', JStr ''2023-01''),
            (''endDateMonth'', JStr ''2023-06''),
            (''siteCodes'', JArr [JStr ''HARV'', JStr ''SRER''])]"
  let ?P1 = "[(''productCode'', JStr ''DP1.10003.001''), (''startDateMonth'', JStr ''2023-01''),
            (''endDateMonth'', JStr ''2023-06''), (''siteCodes'', JArr [JStr ''HARV''])]"
  have p2: "js_prop ?P2 ''siteCodes'' = JArr [JStr ''HARV'', JStr ''SRER'']"
    by code_simp
  have p1: "js_prop ?P1 ''siteCodes'' = JArr [JStr ''HARV'']"
    by code_simp
  have m2: "\<not> cache_hit ?en ''/api/v0/data/query'' (Some ?P2) True NeonApiClient_new"
    by code_simp
  have m1: "\<not> cache_hit ?en ''/api/v0/data/query'' (Some (single_site_params ?P1)) True
               NeonApiClient_new"
    by code_simp
  have u2: "baseUrl @ ''/api/v0/data/query'' = ''https://data.neonscience.org/api/v0/data/query''"
    by code_simp
  have u1: "build_url ''/api/v0/data/query'' (Some (single_site_params ?P1))
     = ''https://data.neonscience.org/api/v0/data/query?productCode=DP1.10003.001&startDateMonth=2023-01&endDateMonth=2023-06&siteCode=HARV''"
    by code_simp
  have post: "issued NeonApiClient_new (snd (queryData ?en ?P2 NeonApiClient_new))
     = [POST ''https://data.neonscience.org/api/v0/data/query'' ?P2]"
    using queryData_transport [of ?P2 "[JStr ''HARV'', JStr ''SRER'']" NeonApiClient_new ?en] p2 m2
    by (simp only: u2 list.size One_nat_def lessI if_False simp_thms)
  have getr: "\<exists>n\<le>3. n \<noteq> 0 \<and> issued NeonApiClient_new (snd (queryData ?en ?P1 NeonApiClient_new))
     = replicate n (GET ''https://data.neonscience.org/api/v0/data/query?productCode=DP1.10003.001&startDateMonth=2023-01&endDateMonth=2023-06&siteCode=HARV'')"
    using queryData_transport [of ?P1 "[JStr ''HARV'']" NeonApiClient_new ?en] p1 m1
    unfolding u1 by auto
  show ?thesis
    using p2 p1 post getr by simp
qed

text \<open>
  C4. The claim: data-availability results are cached for 30 minutes on both paths.
  Evaluated here: after a successful two-site query (POST path) the entry written has the
  default time-to-live of one hour; after a successful one-site query (GET path) it has
  30 minutes.
\<close>

theorem queryData_post_default_ttl:
  "map_option ttl
     (cache (client_cache (snd (queryData
         \<lparr> respond = (\<lambda>n r. Response 200 (Json (JObj [(''data'', JObj [(''siteCodes'', JArr [])])]))),
           clock = (\<lambda>n. 0) \<rparr>
         [(''productCode'', JStr ''DP1.10003.001''), (''startDateMonth'', JStr ''2023-01''),
          (''endDateMonth'', JStr ''2023-06''), (''siteCodes'', JArr [JStr ''HARV'', JStr ''SRER''])]
         NeonApiClient_new)))
       (generateKey ''/api/v0/data/query''
          (Some [(''productCode'', JStr ''DP1.10003.001''), (''startDateMonth'', JStr ''2023-01''),
                 (''endDateMonth'', JStr ''2023-06''),
                 (''siteCodes'', JArr [JStr ''HARV'', JStr ''SRER''])])))
     = Some (60 * 60 * 1000)
   \<and> map_option ttl
     (cache (client_cache (snd (queryData
         \<lparr> respond = (\<lambda>n r. Response 200 (Json (JObj [(''data'', JObj [(''siteCodes'', JArr [])])]))),
           clock = (\<lambda>n. 0) \<rparr>
         [(''productCode'', JStr ''DP1.10003.001''), (''startDateMonth'', JStr ''2023-01''),
          (''endDateMonth'', JStr ''2023-06''), (''siteCodes'', JArr [JStr ''HARV''])]
         NeonApiClient_new)))
       (generateKey ''/api/v0/data/query''
          (Some [(''productCode'', JStr ''DP1.10003.001''), (''startDateMonth'', JStr ''2023-01''),
                 (''endDateMonth'', JStr ''2023-06''), (''siteCode'', JStr ''HARV'')])))
     = Some (30 * 60 * 1000)"
  by code_simp

text \<open>
  C7. The claim: \<^verbatim>\<open>undefined\<close>-valued parameters do not affect the cache key. Evaluated
  here on the parameter object the data tool builds when \<^verbatim>\<open>package\<close>, \<^verbatim>\<open>release\<close> and
  \<^verbatim>\<open>includeProvisional\<close> are omitted: the key contains \<^verbatim>\<open>package=undefined\<close> and so on, and
  differs from the key of the object without these entries, although both are sent to the
  same URL.
\<close>

theorem generateKey_undefined_params:
  "generateKey ''/api/v0/data/query''
       (Some [(''productCode'', JStr ''DP1.10003.001''), (''startDateMonth'', JStr ''2023-01''),
              (''endDateMonth'', JStr ''2023-06''), (''package'', JUndefined),
              (''release'', JUndefined), (''includeProvisional'', JUndefined),
              (''siteCode'', JStr ''HARV'')])
     = ''/api/v0/data/query?endDateMonth=2023-06&includeProvisional=undefined&package=undefined&productCode=DP1.10003.001&release=undefined&siteCode=HARV&startDateMonth=2023-01''
   \<and> generateKey ''/api/v0/data/query''
       (Some [(''productCode'', JStr ''DP1.10003.001''), (''startDateMonth'', JStr ''2023-01''),
              (''endDateMonth'', JStr ''2023-06''), (''siteCode'', JStr ''HARV'')])
     = ''/api/v0/data/query?endDateMonth=2023-06&productCode=DP1.10003.001&siteCode=HARV&startDateMonth=2023-01''
   \<and> generateKey ''/api/v0/data/query''
       (Some [(''productCode'', JStr ''DP1.10003.001''), (''startDateMonth'', JStr ''2023-01''),
              (''endDateMonth'', JStr ''2023-06''), (''package'', JUndefined),
              (''release'', JUndefined), (''includeProvisional'', JUndefined),
              (''siteCode'', JStr ''HARV'')])
     \<noteq> generateKey ''/api/v0/data/query''
       (Some [(''productCode'', JStr ''DP1.10003.001''), (''startDateMonth'', JStr ''2023-01''),
              (''endDateMonth'', JStr ''2023-06''), (''siteCode'', JStr ''HARV'')])
   \<and> build_url ''/api/v0/data/query''
       (Some [(''productCode'', JStr ''DP1.10003.001''), (''startDateMonth'', JStr ''2023-01''),
              (''endDateMonth'', JStr ''2023-06''), (''package'', JUndefined),
              (''release'', JUndefined), (''includeProvisional'', JUndefined),
              (''siteCode'', JStr ''HARV'')])
     = build_url ''/api/v0/data/query''
       (Some [(''productCode'', JStr ''DP1.10003.001''), (''startDateMonth'', JStr ''2023-01''),
              (''endDateMonth'', JStr ''2023-06''), (''siteCode'', JStr ''HARV'')])"
  by code_simp

section \<open>Properties of the location resolver\<close>


lemma fetch_count_emit_Warn [simp]:
  "fetch_count (trace (emit (Warn m) s)) = fetch_count (trace s)"
  by (simp add: emit_def fetch_count_append) (simp add: fetch_count_def)










lemma findTowersAtSite_returns:
  "\<exists>towers. fst (findTowersAtSite en siteCode s) = Inr towers"
  by (auto simp: findTowersAtSite_def split: prod.splits sum.splits option.splits)

lemma searchLocationsByType_returns:
  "\<exists>found. fst (searchLocationsByType en locationType site s) = Inr found"
  using findTowersAtSite_returns
  by (auto simp: searchLocationsByType_def split: prod.splits sum.splits option.splits list.splits)

lemma findTowersAtSite_after_direct:
  "fst (direct_lookup en siteCode s) = None \<Longrightarrow>
   fst (findTowersAtSite en siteCode s)
     = (case fst (catalog_strategies en siteCode (snd (direct_lookup en siteCode s))) of
          Inl e \<Rightarrow> Inr []
        | Inr towers \<Rightarrow> Inr towers)"
  by (cases "direct_lookup en siteCode s")
     (auto simp: findTowersAtSite_def split: prod.splits sum.splits)

lemma catalog_failure:
  "fst (getSiteLocations en s) = Inl e \<Longrightarrow> fst (catalog_strategies en siteCode s) = Inl e"
  by (cases "getSiteLocations en s") (simp add: catalog_strategies_def)

lemma cross_site_failure:
  "fst (getSiteLocations en s) = Inl e \<Longrightarrow>
   fst (searchLocationsByType en locationType None s) = Inr []"
  by (cases "getSiteLocations en s")
     (simp add: searchLocationsByType_def cross_site_search_def)

lemma direct_lookup_failure:
  "fst (getLocation en ''TOWER104454'' None None None s) = Inl e \<Longrightarrow>
   direct_lookup en (JStr ''SRER'') s = (None, snd (getLocation en ''TOWER104454'' None None None s))"
  by (cases "getLocation en ''TOWER104454'' None None None s") (simp add: direct_lookup_def)

lemma guess_loop_failure:
  "fst (getLocation en towerName None None None s) = Inl e \<Longrightarrow>
   guess_loop en siteCode (towerName # names) towers s
     = guess_loop en siteCode names towers (snd (getLocation en towerName None None None s))"
  by (cases "getLocation en towerName None None None s") simp

lemma catalog_nothing:
  "fst (getSiteLocations en s) = Inr siteLocations \<Longrightarrow>
   site_towers siteCode siteLocations = Inr [] \<Longrightarrow>
   fst (catalog_strategies en siteCode s)
     = Inr (fst (guess_loop en siteCode (possibleTowerNames siteCode) []
                   (snd (getSiteLocations en s))))"
  by (cases "getSiteLocations en s") (simp add: catalog_strategies_def split: prod.splits)

text \<open>
  C8. Location resolution never raises: \<^verbatim>\<open>findTowersAtSite\<close> and
  \<^verbatim>\<open>searchLocationsByType\<close> always return a collection. The collection is empty when the
  catalogue request fails (for \<^verbatim>\<open>findTowersAtSite\<close>: once the direct lookup has returned
  no tower), and when nothing matches: no direct hit, no catalogue entry passing the
  filter, no guess with the right site. A failed direct lookup counts as "no tower" and
  the catalogue strategies run next; a failed by-name lookup among the guesses is skipped
  and the remaining names are still tried.
\<close>

theorem location_resolution_never_raises:
  "(\<exists>towers. fst (findTowersAtSite en siteCode s) = Inr towers)
   \<and> (\<exists>found. fst (searchLocationsByType en locationType site s) = Inr found)
   \<and> (fst (direct_lookup en siteCode s) = None
        \<and> fst (getSiteLocations en (snd (direct_lookup en siteCode s))) = Inl e
      \<longrightarrow> fst (findTowersAtSite en siteCode s) = Inr [])
   \<and> (fst (getSiteLocations en s) = Inl e
      \<longrightarrow> fst (searchLocationsByType en locationType None s) = Inr [])
   \<and> (fst (direct_lookup en siteCode s) = None
        \<and> fst (getSiteLocations en (snd (direct_lookup en siteCode s))) = Inr siteLocations
        \<and> site_towers siteCode siteLocations = Inr []
        \<and> fst (guess_loop en siteCode (possibleTowerNames siteCode) []
                 (snd (getSiteLocations en (snd (direct_lookup en siteCode s))))) = []
      \<longrightarrow> fst (findTowersAtSite en siteCode s) = Inr [])
   \<and> (fst (getLocation en ''TOWER104454'' None None None s) = Inl e
      \<longrightarrow> direct_lookup en (JStr ''SRER'') s
            = (None, snd (getLocation en ''TOWER104454'' None None None s))
          \<and> fst (findTowersAtSite en (JStr ''SRER'') s)
            = (case fst (catalog_strategies en (JStr ''SRER'')
                           (snd (getLocation en ''TOWER104454'' None None None s))) of
                 Inl e' \<Rightarrow> Inr []
               | Inr towers \<Rightarrow> Inr towers))
   \<and> (fst (getLocation en towerName None None None s) = Inl e
      \<longrightarrow> guess_loop en siteCode (towerName # names) found s
            = guess_loop en siteCode names found
                (snd (getLocation en towerName None None None s)))"
proof (intro conjI impI)
  show "\<exists>towers. fst (findTowersAtSite en siteCode s) = Inr towers"
    by (rule findTowersAtSite_returns)
  show "\<exists>found. fst (searchLocationsByType en locationType site s) = Inr found"
    by (rule searchLocationsByType_returns)
next
  assume h: "fst (direct_lookup en siteCode s) = None
        \<and> fst (getSiteLocations en (snd (direct_lookup en siteCode s))) = Inl e"
  then have "fst (catalog_strategies en siteCode (snd (direct_lookup en siteCode s))) = Inl e"
    by (intro catalog_failure) simp
  then show "fst (findTowersAtSite en siteCode s) = Inr []"
    using h by (simp add: findTowersAtSite_after_direct)
next
  assume "fst (getSiteLocations en s) = Inl e"
  then show "fst (searchLocationsByType en locationType None s) = Inr []"
    by (rule cross_site_failure)
next
  assume h: "fst (direct_lookup en siteCode s) = None
        \<and> fst (getSiteLocations en (snd (direct_lookup en siteCode s))) = Inr siteLocations
        \<and> site_towers siteCode siteLocations = Inr []
        \<and> fst (guess_loop en siteCode (possibleTowerNames siteCode) []
                 (snd (getSiteLocations en (snd (direct_lookup en siteCode s))))) = []"
  then have "fst (catalog_strategies en siteCode (snd (direct_lookup en siteCode s))) = Inr []"
    using catalog_nothing [of en "snd (direct_lookup en siteCode s)" siteLocations siteCode]
    by simp
  then show "fst (findTowersAtSite en siteCode s) = Inr []"
    using h by (simp add: findTowersAtSite_after_direct)
next
  assume h: "fst (getLocation en ''TOWER104454'' None None None s) = Inl e"
  then show d: "direct_lookup en (JStr ''SRER'') s
            = (None, snd (getLocation en ''TOWER104454'' None None None s))"
    by (rule direct_lookup_failure)
  show "fst (findTowersAtSite en (JStr ''SRER'') s)
            = (case fst (catalog_strategies en (JStr ''SRER'')
                           (snd (getLocation en ''TOWER104454'' None None None s))) of
                 Inl e' \<Rightarrow> Inr []
               | Inr towers \<Rightarrow> Inr towers)"
    using findTowersAtSite_after_direct [of en "JStr ''SRER''" s] d by simp
next
  assume "fst (getLocation en towerName None None None s) = Inl e"
  then show "guess_loop en siteCode (towerName # names) found s
            = guess_loop en siteCode names found
                (snd (getLocation en towerName None None None s))"
    by (rule guess_loop_failure)
qed


theorem location_resolution_never_raises_witness:
  "fst (direct_lookup unreachable_service (JStr ''SRER'') NeonApiClient_new) = None
   \<and> fst (getSiteLocations unreachable_service
            (snd (direct_lookup unreachable_service (JStr ''SRER'') NeonApiClient_new)))
     = Inl (Error ''connect ECONNREFUSED'')
   \<and> fst (findTowersAtSite unreachable_service (JStr ''SRER'') NeonApiClient_new) = Inr []
   \<and> fst (getSiteLocations unreachable_service NeonApiClient_new)
     = Inl (Error ''connect ECONNREFUSED'')
   \<and> fst (searchLocationsByType unreachable_service ''TOWER'' None NeonApiClient_new) = Inr []
   \<and> fst (getLocation unreachable_service ''TOWER104454'' None None None NeonApiClient_new)
     = Inl (Error ''connect ECONNREFUSED'')
   \<and> direct_lookup unreachable_service (JStr ''SRER'') NeonApiClient_new
     = (None, snd (getLocation unreachable_service ''TOWER104454'' None None None
                     NeonApiClient_new))
   \<and> guess_loop unreachable_service (JStr ''SRER'') [''TOWER104454''] [] NeonApiClient_new
     = guess_loop unreachable_service (JStr ''SRER'') [] []
         (snd (getLocation unreachable_service ''TOWER104454'' None None None NeonApiClient_new))
   \<and> fst (direct_lookup example_service (JStr ''ABBY'') NeonApiClient_new) = None
   \<and> fst (getSiteLocations example_service
            (snd (direct_lookup example_service (JStr ''ABBY'') NeonApiClient_new)))
     = Inr (JArr
          [JObj [(''locationName'', JStr ''SRER''), (''locationType'', JStr ''SITE''),
                 (''locationDescription'', JStr ''Santa Rita Experimental Range''),
                 (''siteCode'', JStr ''SRER'')],
           JObj [(''locationName'', JStr ''ABBY''), (''locationType'', JStr ''SITE''),
                 (''locationDescription'', JStr ''Abby Road''),
                 (''siteCode'', JStr ''ABBY'')]])
   \<and> site_towers (JStr ''ABBY'') (JArr
          [JObj [(''locationName'', JStr ''SRER''), (''locationType'', JStr ''SITE''),
                 (''locationDescription'', JStr ''Santa Rita Experimental Range''),
                 (''siteCode'', JStr ''SRER'')],
           JObj [(''locationName'', JStr ''ABBY''), (''locationType'', JStr ''SITE''),
                 (''locationDescription'', JStr ''Abby Road''),
                 (''siteCode'', JStr ''ABBY'')]]) = Inr []
   \<and> fst (guess_loop example_service (JStr ''ABBY'') (possibleTowerNames (JStr ''ABBY'')) []
            (snd (getSiteLocations example_service
                    (snd (direct_lookup example_service (JStr ''ABBY'') NeonApiClient_new))))) = []
   \<and> fst (findTowersAtSite example_service (JStr ''ABBY'') NeonApiClient_new) = Inr []"
proof -
  let ?U = unreachable_service and ?E = example_service and ?S = NeonApiClient_new
  let ?cat = "JArr
          [JObj [(''locationName'', JStr ''SRER''), (''locationType'', JStr ''SITE''),
                 (''locationDescription'', JStr ''Santa Rita Experimental Range''),
                 (''siteCode'', JStr ''SRER'')],
           JObj [(''locationName'', JStr ''ABBY''), (''locationType'', JStr ''SITE''),
                 (''locationDescription'', JStr ''Abby Road''),
                 (''siteCode'', JStr ''ABBY'')]]"
  have u1: "fst (direct_lookup ?U (JStr ''SRER'') ?S) = None"
    by code_simp
  have u2: "fst (getSiteLocations ?U (snd (direct_lookup ?U (JStr ''SRER'') ?S)))
              = Inl (Error ''connect ECONNREFUSED'')"
    by code_simp
  have u3: "fst (getSiteLocations ?U ?S) = Inl (Error ''connect ECONNREFUSED'')"
    by code_simp
  have u4: "fst (getLocation ?U ''TOWER104454'' None None None ?S)
              = Inl (Error ''connect ECONNREFUSED'')"
    by code_simp
  have e1: "fst (direct_lookup ?E (JStr ''ABBY'') ?S) = None"
    by code_simp
  have e2: "fst (getSiteLocations ?E (snd (direct_lookup ?E (JStr ''ABBY'') ?S))) = Inr ?cat"
    by code_simp
  have e3: "site_towers (JStr ''ABBY'') ?cat = Inr []"
    by code_simp
  have e4: "fst (guess_loop ?E (JStr ''ABBY'') (possibleTowerNames (JStr ''ABBY'')) []
                  (snd (getSiteLocations ?E (snd (direct_lookup ?E (JStr ''ABBY'') ?S))))) = []"
    by code_simp
  note iu = location_resolution_never_raises
    [where en = ?U and siteCode = "JStr ''SRER''" and s = ?S and locationType = "''TOWER''"
       and e = "Error ''connect ECONNREFUSED''" and towerName = "''TOWER104454''"
       and names = "[]" and found = "[]"]
  note ie = location_resolution_never_raises
    [where en = ?E and siteCode = "JStr ''ABBY''" and s = ?S and siteLocations = ?cat]
  from iu u1 u2 have c1: "fst (findTowersAtSite ?U (JStr ''SRER'') ?S) = Inr []"
    by blast
  from iu u3 have c2: "fst (searchLocationsByType ?U ''TOWER'' None ?S) = Inr []"
    by blast
  from iu u4 have c3: "direct_lookup ?U (JStr ''SRER'') ?S
     = (None, snd (getLocation ?U ''TOWER104454'' None None None ?S))"
    by blast
  from iu u4 have c4: "guess_loop ?U (JStr ''SRER'') [''TOWER104454''] [] ?S
     = guess_loop ?U (JStr ''SRER'') [] [] (snd (getLocation ?U ''TOWER104454'' None None None ?S))"
    by blast
  from ie e1 e2 e3 e4 have c5: "fst (findTowersAtSite ?E (JStr ''ABBY'') ?S) = Inr []"
    by blast
  from u1 u2 c1 u3 c2 u4 c3 c4 e1 e2 e3 e4 c5 show ?thesis
    by (intro conjI)
qed


































end
